theory Spec2Isabelle
  imports Main "HOL-Library.Product_Lexorder" "HOL-Library.AList"
begin

section \<open>Errors\<close>

text \<open>
  Every exception the modelled functions of \<^verbatim>\<open>app_v2.py\<close> can raise is a value.
  \<^verbatim>\<open>ValueError\<close> is the validation error of the specification; its message is kept where
  the source's message is a constant string, and the constant part of it where the source
  interpolates a value into an f-string.
\<close>

datatype error =
    ValueError string
  | KeyError
  | IndexError
  | OverflowError
  | AttributeError

fun is_ValueError :: "error + 'a \<Rightarrow> bool" where
  "is_ValueError (Inl (ValueError m)) = True"
| "is_ValueError r = False"

section \<open>Naive datetimes\<close>

text \<open>
  \<^verbatim>\<open>datetime.datetime\<close> without time zone: seven calendar fields, compared
  lexicographically.  \<^verbatim>\<open>microsecond\<close> is a field of every Python datetime.
\<close>

record datetime =
  year :: nat
  month :: nat
  day :: nat
  hour :: nat
  minute :: nat
  second :: nat
  microsecond :: nat

definition dt_key :: "datetime \<Rightarrow> nat \<times> nat \<times> nat \<times> nat \<times> nat \<times> nat \<times> nat" where
  "dt_key d = (year d, month d, day d, hour d, minute d, second d, microsecond d)"

definition dt_le :: "datetime \<Rightarrow> datetime \<Rightarrow> bool" where
  "dt_le a b = (dt_key a \<le> dt_key b)"

definition dt_lt :: "datetime \<Rightarrow> datetime \<Rightarrow> bool" where
  "dt_lt a b = (dt_key a < dt_key b)"

definition is_leap :: "nat \<Rightarrow> bool" where
  "is_leap y = (y mod 4 = 0 \<and> (y mod 100 \<noteq> 0 \<or> y mod 400 = 0))"

definition days_in_month :: "nat \<Rightarrow> nat \<Rightarrow> nat" where
  "days_in_month y m =
     (if m = 2 then (if is_leap y then 29 else 28)
      else if m = 4 \<or> m = 6 \<or> m = 9 \<or> m = 11 then 30 else 31)"

text \<open>The values the \<^verbatim>\<open>datetime\<close> constructor accepts (MINYEAR = 1, MAXYEAR = 9999).\<close>

definition valid_datetime :: "datetime \<Rightarrow> bool" where
  "valid_datetime d =
     (1 \<le> year d \<and> year d \<le> 9999 \<and> 1 \<le> month d \<and> month d \<le> 12 \<and>
      1 \<le> day d \<and> day d \<le> days_in_month (year d) (month d) \<and>
      hour d < 24 \<and> minute d < 60 \<and> second d < 60 \<and> microsecond d < 1000000)"

text \<open>
  \<^verbatim>\<open>d + timedelta(days=1)\<close> and \<^verbatim>\<open>d + timedelta(hours=1)\<close>: the calendar successor,
  \<^verbatim>\<open>OverflowError\<close> past 9999-12-31.
\<close>

definition add_one_day :: "datetime \<Rightarrow> error + datetime" where
  "add_one_day d =
     (if day d < days_in_month (year d) (month d) then Inr (d\<lparr>day := day d + 1\<rparr>)
      else if month d < 12 then Inr (d\<lparr>month := month d + 1, day := 1\<rparr>)
      else if year d < 9999 then Inr (d\<lparr>year := year d + 1, month := 1, day := 1\<rparr>)
      else Inl OverflowError)"

definition add_one_hour :: "datetime \<Rightarrow> error + datetime" where
  "add_one_hour d =
     (if hour d < 23 then Inr (d\<lparr>hour := hour d + 1\<rparr>)
      else add_one_day (d\<lparr>hour := 0\<rparr>))"

text \<open>\<^verbatim>\<open>datetime(year=y, month=m, day=d)\<close>: the time-of-day fields default to zero.\<close>

definition datetime_ymd :: "nat \<Rightarrow> nat \<Rightarrow> nat \<Rightarrow> datetime" where
  "datetime_ymd y m d =
     \<lparr>year = y, month = m, day = d, hour = 0, minute = 0, second = 0, microsecond = 0\<rparr>"

section \<open>The TimeRange hierarchy\<close>

text \<open>
  \<^verbatim>\<open>DayTimeRange\<close> objects carry \<^verbatim>\<open>start_date\<close> and \<^verbatim>\<open>end_date\<close>; they are the keys
  of the daily history and the target of fact extraction, so they get a type of their own.
  The class hierarchy is the datatype \<open>TimeRange\<close>; the abstract base class has no
  instances.
\<close>

record DayTimeRange =
  start_date :: datetime
  end_date :: datetime

datatype TimeRange =
    MonthTimeRange datetime
  | YearTimeRange datetime
  | CustomTimeRange datetime datetime
  | HistoricalTimeRange datetime datetime
  | DayRange DayTimeRange
  | HourTimeRange datetime datetime

fun TimeRange_start :: "TimeRange \<Rightarrow> datetime" where
  "TimeRange_start (MonthTimeRange s) = s"
| "TimeRange_start (YearTimeRange s) = s"
| "TimeRange_start (CustomTimeRange s e) = s"
| "TimeRange_start (HistoricalTimeRange s e) = s"
| "TimeRange_start (DayRange r) = start_date r"
| "TimeRange_start (HourTimeRange s e) = s"

subsection \<open>Alignment checks\<close>

definition DayTimeRange_check :: "datetime \<Rightarrow> error + unit" where
  "DayTimeRange_check d =
     (if hour d \<noteq> 0 \<or> minute d \<noteq> 0 \<or> second d \<noteq> 0
      then Inl (ValueError ''Date is not a day'') else Inr ())"

definition MonthTimeRange_check :: "datetime \<Rightarrow> error + unit" where
  "MonthTimeRange_check d =
     (case DayTimeRange_check d of
        Inl e \<Rightarrow> Inl e
      | Inr u \<Rightarrow> if day d \<noteq> 1 then Inl (ValueError ''Date is not a month'') else Inr ())"

definition YearTimeRange_check :: "datetime \<Rightarrow> error + unit" where
  "YearTimeRange_check d =
     (case MonthTimeRange_check d of
        Inl e \<Rightarrow> Inl e
      | Inr u \<Rightarrow> if month d \<noteq> 1 then Inl (ValueError ''Date is not a year'') else Inr ())"

definition HourTimeRange_check :: "datetime \<Rightarrow> error + unit" where
  "HourTimeRange_check d =
     (if minute d \<noteq> 0 \<or> second d \<noteq> 0
      then Inl (ValueError ''Date is not an hour'') else Inr ())"

subsection \<open>Constructors\<close>

definition MonthTimeRange_init :: "datetime \<Rightarrow> error + TimeRange" where
  "MonthTimeRange_init d =
     (case MonthTimeRange_check d of Inl e \<Rightarrow> Inl e | Inr u \<Rightarrow> Inr (MonthTimeRange d))"

definition YearTimeRange_init :: "datetime \<Rightarrow> error + TimeRange" where
  "YearTimeRange_init d =
     (case YearTimeRange_check d of Inl e \<Rightarrow> Inl e | Inr u \<Rightarrow> Inr (YearTimeRange d))"

definition CustomTimeRange_init :: "datetime \<Rightarrow> datetime \<Rightarrow> error + TimeRange" where
  "CustomTimeRange_init s e = Inr (CustomTimeRange s e)"

definition HistoricalTimeRange_init :: "datetime \<Rightarrow> datetime \<Rightarrow> error + TimeRange" where
  "HistoricalTimeRange_init s e = Inr (HistoricalTimeRange s e)"

definition DayTimeRange_init :: "datetime \<Rightarrow> error + DayTimeRange" where
  "DayTimeRange_init d =
     (case DayTimeRange_check d of
        Inl e \<Rightarrow> Inl e
      | Inr u \<Rightarrow>
          (case add_one_day d of
             Inl e \<Rightarrow> Inl e
           | Inr e \<Rightarrow> Inr \<lparr>start_date = d, end_date = e\<rparr>))"

definition HourTimeRange_init :: "datetime \<Rightarrow> error + TimeRange" where
  "HourTimeRange_init d =
     (case HourTimeRange_check d of
        Inl e \<Rightarrow> Inl e
      | Inr u \<Rightarrow>
          (case add_one_hour d of
             Inl e \<Rightarrow> Inl e
           | Inr e \<Rightarrow> Inr (HourTimeRange d e)))"

text \<open>The ranges a constructor call can return.\<close>

definition constructed :: "TimeRange \<Rightarrow> bool" where
  "constructed r =
     (case r of
        MonthTimeRange s \<Rightarrow> MonthTimeRange_init s = Inr r
      | YearTimeRange s \<Rightarrow> YearTimeRange_init s = Inr r
      | CustomTimeRange s e \<Rightarrow> CustomTimeRange_init s e = Inr r
      | HistoricalTimeRange s e \<Rightarrow> HistoricalTimeRange_init s e = Inr r
      | DayRange t \<Rightarrow> DayTimeRange_init (start_date t) = Inr t
      | HourTimeRange s e \<Rightarrow> HourTimeRange_init s = Inr r)"

subsection \<open>Containment\<close>

fun contains :: "TimeRange \<Rightarrow> datetime \<Rightarrow> bool" where
  "contains (MonthTimeRange s) d = (year s = year d \<and> month s = month d)"
| "contains (YearTimeRange s) d = (year s = year d)"
| "contains (CustomTimeRange s e) d = (dt_le s d \<and> dt_lt d e)"
| "contains (HistoricalTimeRange s e) d = (dt_le s d \<and> dt_lt d e)"
| "contains (DayRange r) d = (dt_le (start_date r) d \<and> dt_lt d (end_date r))"
| "contains (HourTimeRange s e) d = (dt_le s d \<and> dt_lt d e)"

subsection \<open>Methods of DayTimeRange\<close>

definition DayTimeRange_month_time_range :: "DayTimeRange \<Rightarrow> error + TimeRange" where
  "DayTimeRange_month_time_range r =
     MonthTimeRange_init (datetime_ymd (year (start_date r)) (month (start_date r)) 1)"

definition DayTimeRange_year_time_range :: "DayTimeRange \<Rightarrow> error + TimeRange" where
  "DayTimeRange_year_time_range r =
     YearTimeRange_init (datetime_ymd (year (start_date r)) 1 1)"

definition DayTimeRange_year :: "DayTimeRange \<Rightarrow> nat" where
  "DayTimeRange_year r = year (start_date r)"

definition DayTimeRange_month :: "DayTimeRange \<Rightarrow> nat" where
  "DayTimeRange_month r = month (start_date r)"

text \<open>
  \<^verbatim>\<open>datetime.weekday()\<close>: Monday is 0.  \<^verbatim>\<open>toordinal\<close> counts days from 0001-01-01,
  which is day 1 and a Monday.
\<close>

definition days_before_year :: "nat \<Rightarrow> nat" where
  "days_before_year y =
     (let y1 = y - 1 in y1 * 365 + y1 div 4 - y1 div 100 + y1 div 400)"

definition days_before_month :: "nat \<Rightarrow> nat \<Rightarrow> nat" where
  "days_before_month y m = sum_list (map (days_in_month y) [1..<m])"

definition toordinal :: "datetime \<Rightarrow> nat" where
  "toordinal d = days_before_year (year d) + days_before_month (year d) (month d) + day d"

definition weekday :: "datetime \<Rightarrow> nat" where
  "weekday d = (toordinal d + 6) mod 7"

datatype DayOfWeek = MONDAY | TUESDAY | WEDNESDAY | THURSDAY | FRIDAY | SATURDAY | SUNDAY

text \<open>
  \<^verbatim>\<open>DayOfWeek(n)\<close> for the value of \<^verbatim>\<open>weekday()\<close>, which lies in 0..6: the enum lookup
  cannot fail there.
\<close>

definition DayOfWeek_of :: "nat \<Rightarrow> DayOfWeek" where
  "DayOfWeek_of n =
     (if n = 0 then MONDAY else if n = 1 then TUESDAY else if n = 2 then WEDNESDAY
      else if n = 3 then THURSDAY else if n = 4 then FRIDAY else if n = 5 then SATURDAY
      else SUNDAY)"

definition DayTimeRange_day_of_week :: "DayTimeRange \<Rightarrow> DayOfWeek" where
  "DayTimeRange_day_of_week r = DayOfWeek_of (weekday (start_date r))"

section \<open>Python containers\<close>

text \<open>
  Indexing raises \<^verbatim>\<open>IndexError\<close> out of range; a comprehension whose body can raise
  stops at the first exception, evaluating left to right.
\<close>

definition py_getitem :: "'a list \<Rightarrow> nat \<Rightarrow> error + 'a" where
  "py_getitem xs i = (if i < length xs then Inr (xs ! i) else Inl IndexError)"

fun traverse :: "('a \<Rightarrow> error + 'b) \<Rightarrow> 'a list \<Rightarrow> error + 'b list" where
  "traverse f [] = Inr []"
| "traverse f (x # xs) =
     (case f x of
        Inl e \<Rightarrow> Inl e
      | Inr y \<Rightarrow> (case traverse f xs of Inl e \<Rightarrow> Inl e | Inr ys \<Rightarrow> Inr (y # ys)))"

text \<open>\<^verbatim>\<open>max\<close> of a list raises \<^verbatim>\<open>ValueError\<close> on the empty list.\<close>

fun py_max :: "int list \<Rightarrow> error + int" where
  "py_max [] = Inl (ValueError ''max() arg is an empty sequence'')"
| "py_max (x # xs) = Inr (fold max xs x)"

text \<open>
  None of the TimeRange classes defines \<^verbatim>\<open>__eq__\<close> or \<^verbatim>\<open>__hash__\<close>, so a dict keyed
  by time ranges compares its keys by object identity: it has one entry for each key
  object, in insertion order, also when two key objects hold the same date.  Such a dict
  is the list of its items; distinct positions are distinct objects.

  A dict keyed by \<open>DayOfWeek\<close> (an enum) compares its keys by value: it is an
  association list, \<^verbatim>\<open>d.get(k, [])\<close> is \<open>map_of\<close> with a default and \<^verbatim>\<open>d[k] = v\<close> is
  \<open>AList.update\<close>, which overwrites in place or appends.
\<close>

section \<open>The ranking engine\<close>

text \<open>
  The sorted list of \<^verbatim>\<open>human_rank_in_list\<close> holds the counts between the two sentinels
  \<^verbatim>\<open>math.inf\<close> and \<^verbatim>\<open>-math.inf\<close>.  Counts are Python ints.
\<close>

datatype ext_int = MinusInf | Fin int | PlusInf

fun ext_gt :: "ext_int \<Rightarrow> ext_int \<Rightarrow> bool" where
  "ext_gt PlusInf PlusInf = False"
| "ext_gt PlusInf b = True"
| "ext_gt (Fin a) (Fin b) = (a > b)"
| "ext_gt (Fin a) MinusInf = True"
| "ext_gt (Fin a) PlusInf = False"
| "ext_gt MinusInf b = False"

text \<open>The first loop: the binary search between \<open>left\<close> and \<open>right\<close>.\<close>

function bisect :: "ext_int list \<Rightarrow> int \<Rightarrow> nat \<Rightarrow> nat \<Rightarrow> error + nat" where
  "bisect sorted_list quantity left right =
     (if left < right - 1 then
        (case py_getitem sorted_list ((left + right) div 2) of
           Inl e \<Rightarrow> Inl e
         | Inr x \<Rightarrow>
             if ext_gt x (Fin quantity)
             then bisect sorted_list quantity ((left + right) div 2) right
             else bisect sorted_list quantity left ((left + right) div 2))
      else Inr right)"
  by pat_completeness auto
termination
  by (relation "measure (\<lambda>(sl, q, left, right). right - left)") auto

text \<open>The second loop: the scan over the elements equal to \<open>quantity\<close>.\<close>

function count_ties :: "ext_int list \<Rightarrow> int \<Rightarrow> nat \<Rightarrow> int \<Rightarrow> error + int" where
  "count_ties sorted_list quantity right nb_ties =
     (if right < length sorted_list then
        (case py_getitem sorted_list right of
           Inl e \<Rightarrow> Inl e
         | Inr x \<Rightarrow>
             if x = Fin quantity
             then count_ties sorted_list quantity (right + 1) (nb_ties + 1)
             else Inr nb_ties)
      else Inr nb_ties)"
  by pat_completeness auto
termination
  by (relation "measure (\<lambda>(sl, q, right, n). length sl - right)") auto

definition human_rank_in_list :: "int \<Rightarrow> int list \<Rightarrow> error + int \<times> int" where
  "human_rank_in_list quantity list' =
     (let sorted_list = [PlusInf] @ map Fin (rev (sort list')) @ [MinusInf] in
      case bisect sorted_list quantity 0 (length sorted_list - 1) of
        Inl e \<Rightarrow> Inl e
      | Inr right \<Rightarrow>
          (case count_ties sorted_list quantity right 0 of
             Inl e \<Rightarrow> Inl e
           | Inr nb_ties \<Rightarrow> Inr (int right, nb_ties - 1)))"

section \<open>The daily count history\<close>

record DailyCountHistory =
  day_to_count :: "(DayTimeRange \<times> int) list"
  month_to_count :: "(TimeRange \<times> int) list"
  year_to_count :: "(TimeRange \<times> int) list"
  total :: int
  day_to_cumsum :: "(DayTimeRange \<times> int) list"
  month_to_cumsum :: "(TimeRange \<times> int) list"
  day_of_week_to_best_count :: "(DayOfWeek \<times> int) list"

text \<open>
  In \<^verbatim>\<open>_group_by_month\<close> and \<^verbatim>\<open>_group_by_year\<close> every iteration creates a new range
  object, which is not yet a key: \<^verbatim>\<open>get(month, [])\<close> gives the default and the assignment
  adds an entry.
\<close>

fun group_by_month_loop ::
  "(DayTimeRange \<times> int) list \<Rightarrow> (TimeRange \<times> int list) list \<Rightarrow> error + (TimeRange \<times> int list) list" where
  "group_by_month_loop [] month_to_day_counts = Inr month_to_day_counts"
| "group_by_month_loop ((d, count) # rest) month_to_day_counts =
     (case DayTimeRange_month_time_range d of
        Inl e \<Rightarrow> Inl e
      | Inr month' \<Rightarrow> group_by_month_loop rest (month_to_day_counts @ [(month', [] @ [count])]))"

definition group_by_month :: "(DayTimeRange \<times> int) list \<Rightarrow> error + (TimeRange \<times> int) list" where
  "group_by_month day_to_count' =
     (case group_by_month_loop day_to_count' [] of
        Inl e \<Rightarrow> Inl e
      | Inr month_to_day_counts \<Rightarrow> Inr (map (\<lambda>(m, counts). (m, sum_list counts)) month_to_day_counts))"

fun group_by_year_loop ::
  "(DayTimeRange \<times> int) list \<Rightarrow> (TimeRange \<times> int list) list \<Rightarrow> error + (TimeRange \<times> int list) list" where
  "group_by_year_loop [] year_to_day_counts = Inr year_to_day_counts"
| "group_by_year_loop ((d, count) # rest) year_to_day_counts =
     (case DayTimeRange_year_time_range d of
        Inl e \<Rightarrow> Inl e
      | Inr year' \<Rightarrow> group_by_year_loop rest (year_to_day_counts @ [(year', [] @ [count])]))"

definition group_by_year :: "(DayTimeRange \<times> int) list \<Rightarrow> error + (TimeRange \<times> int) list" where
  "group_by_year day_to_count' =
     (case group_by_year_loop day_to_count' [] of
        Inl e \<Rightarrow> Inl e
      | Inr year_to_day_counts \<Rightarrow> Inr (map (\<lambda>(y, counts). (y, sum_list counts)) year_to_day_counts))"

text \<open>
  \<^verbatim>\<open>_time_range_to_cumsum\<close>: the items sorted by start date (Python's sort is stable, as
  \<open>sort_key\<close> is), then the running sum.  The keys are distinct objects, so every
  assignment adds an entry.
\<close>

fun cumsum_loop :: "('k \<times> int) list \<Rightarrow> int \<Rightarrow> ('k \<times> int) list \<Rightarrow> ('k \<times> int) list" where
  "cumsum_loop [] cumsum time_range_to_cumsum = time_range_to_cumsum"
| "cumsum_loop ((k, count) # rest) cumsum time_range_to_cumsum =
     cumsum_loop rest (cumsum + count) (time_range_to_cumsum @ [(k, cumsum + count)])"

definition time_range_to_cumsum :: "('k \<Rightarrow> datetime) \<Rightarrow> ('k \<times> int) list \<Rightarrow> ('k \<times> int) list" where
  "time_range_to_cumsum start time_range_to_count =
     cumsum_loop (sort_key (\<lambda>x. dt_key (start (fst x))) time_range_to_count) 0 []"

fun best_count_loop ::
  "(DayTimeRange \<times> int) list \<Rightarrow> (DayOfWeek \<times> int list) list \<Rightarrow> (DayOfWeek \<times> int list) list" where
  "best_count_loop [] day_of_week_to_day_counts = day_of_week_to_day_counts"
| "best_count_loop ((d, count) # rest) day_of_week_to_day_counts =
     (let day_of_week = DayTimeRange_day_of_week d in
      best_count_loop rest
        (AList.update day_of_week
           ((case map_of day_of_week_to_day_counts day_of_week of None \<Rightarrow> [] | Some cs \<Rightarrow> cs) @ [count])
           day_of_week_to_day_counts))"

definition extract_day_of_week_to_best_count ::
  "(DayTimeRange \<times> int) list \<Rightarrow> error + (DayOfWeek \<times> int) list" where
  "extract_day_of_week_to_best_count day_to_count' =
     traverse (\<lambda>(day_of_week, counts).
                 case py_max counts of Inl e \<Rightarrow> Inl e | Inr m \<Rightarrow> Inr (day_of_week, m))
       (best_count_loop day_to_count' [])"

definition DailyCountHistory_init :: "(DayTimeRange \<times> int) list \<Rightarrow> error + DailyCountHistory" where
  "DailyCountHistory_init day_to_count' =
     (case group_by_month day_to_count' of
        Inl e \<Rightarrow> Inl e
      | Inr month_to_count' \<Rightarrow>
     (case group_by_year day_to_count' of
        Inl e \<Rightarrow> Inl e
      | Inr year_to_count' \<Rightarrow>
     (case extract_day_of_week_to_best_count day_to_count' of
        Inl e \<Rightarrow> Inl e
      | Inr best \<Rightarrow>
          Inr \<lparr>day_to_count = day_to_count',
               month_to_count = month_to_count',
               year_to_count = year_to_count',
               total = sum_list (map snd day_to_count'),
               day_to_cumsum = time_range_to_cumsum start_date day_to_count',
               month_to_cumsum = time_range_to_cumsum TimeRange_start month_to_count',
               day_of_week_to_best_count = best\<rparr>)))"

section \<open>Relevant facts\<close>

text \<open>
  The concrete fact classes.  The arguments are those of the constructors, in order:
  \<open>target_range\<close>, \<open>priority\<close>, then \<open>total\<close> for the total facts, \<open>total\<close>, \<open>rank\<close>,
  \<open>ties\<close> for the rank-of-total facts and \<open>day_of_week\<close>, \<open>rank\<close>, \<open>ties\<close> for the
  day-of-week facts.
\<close>

datatype RelevantFact =
    HistoricalTotalRelevantFact DayTimeRange int int
  | YearTotalRelevantFact DayTimeRange int int
  | MonthTotalRelevantFact DayTimeRange int int
  | DayOfMonthRankOfTotalRelevantFact DayTimeRange int int int int
  | DayOfYearRankOfTotalRelevantFact DayTimeRange int int int int
  | DayOfHistoricalRankOfTotalRelevantFact DayTimeRange int int int int
  | MonthOfYearRankOfTotalRelevantFact DayTimeRange int int int int
  | MonthOfHistoryRankOfTotalRelevantFact DayTimeRange int int int int
  | YearOfHistoryRankOfTotalRelevantFact DayTimeRange int int int int
  | HistoricalDayOfWeekRankRelevantFact DayTimeRange int DayOfWeek int int
  | YearDayOfWeekRankRelevantFact DayTimeRange int DayOfWeek int int
  | MonthDayOfWeekRankRelevantFact DayTimeRange int DayOfWeek int int

fun priority :: "RelevantFact \<Rightarrow> int" where
  "priority (HistoricalTotalRelevantFact t p x) = p"
| "priority (YearTotalRelevantFact t p x) = p"
| "priority (MonthTotalRelevantFact t p x) = p"
| "priority (DayOfMonthRankOfTotalRelevantFact t p x r n) = p"
| "priority (DayOfYearRankOfTotalRelevantFact t p x r n) = p"
| "priority (DayOfHistoricalRankOfTotalRelevantFact t p x r n) = p"
| "priority (MonthOfYearRankOfTotalRelevantFact t p x r n) = p"
| "priority (MonthOfHistoryRankOfTotalRelevantFact t p x r n) = p"
| "priority (YearOfHistoryRankOfTotalRelevantFact t p x r n) = p"
| "priority (HistoricalDayOfWeekRankRelevantFact t p w r n) = p"
| "priority (YearDayOfWeekRankRelevantFact t p w r n) = p"
| "priority (MonthDayOfWeekRankRelevantFact t p w r n) = p"

section \<open>Fact extraction\<close>

text \<open>
  The target of an extraction is a \<^verbatim>\<open>DayTimeRange\<close> object.  The lookup
  \<^verbatim>\<open>day_to_count[target_range]\<close> finds it only if it is one of the key objects, so the
  model names a target by its fields \<open>obj\<close> and by its position \<open>key_pos\<close> among the
  items of \<open>day_to_count\<close> when it is a key; a position that does not hold this object
  is no key.
\<close>

record DayRef =
  obj :: DayTimeRange
  key_pos :: "nat option"

definition day_to_count_getitem :: "DailyCountHistory \<Rightarrow> DayRef \<Rightarrow> error + int" where
  "day_to_count_getitem count_history target_range =
     (case key_pos target_range of
        None \<Rightarrow> Inl KeyError
      | Some i \<Rightarrow>
          if i < length (day_to_count count_history)
             \<and> fst (day_to_count count_history ! i) = obj target_range
          then Inr (snd (day_to_count count_history ! i))
          else Inl KeyError)"

definition is_key :: "DailyCountHistory \<Rightarrow> DayRef \<Rightarrow> bool" where
  "is_key count_history target_range =
     (case key_pos target_range of
        None \<Rightarrow> False
      | Some i \<Rightarrow> i < length (day_to_count count_history)
                  \<and> fst (day_to_count count_history ! i) = obj target_range)"

definition extract_total :: "DailyCountHistory \<Rightarrow> DayRef \<Rightarrow> error + int" where
  "extract_total count_history target_range = day_to_count_getitem count_history target_range"

definition extract_rank_and_ties_of_day_of_week ::
  "DailyCountHistory \<Rightarrow> DayRef \<Rightarrow> bool \<Rightarrow> error + int \<times> int" where
  "extract_rank_and_ties_of_day_of_week count_history target_range same_year =
     (let count_with_same_dow =
            map snd (filter (\<lambda>(d, count).
                DayTimeRange_day_of_week d = DayTimeRange_day_of_week (obj target_range)
                \<and> (\<not> same_year \<or> DayTimeRange_year d = DayTimeRange_year (obj target_range)))
              (day_to_count count_history))
      in case day_to_count_getitem count_history target_range of
           Inl e \<Rightarrow> Inl e
         | Inr count \<Rightarrow> human_rank_in_list count count_with_same_dow)"

definition get_rank_of_day ::
  "DailyCountHistory \<Rightarrow> DayRef \<Rightarrow> (DayTimeRange \<Rightarrow> DayTimeRange \<Rightarrow> bool) \<Rightarrow> error + int \<times> int" where
  "get_rank_of_day count_history target_range comparator =
     (case day_to_count_getitem count_history target_range of
        Inl e \<Rightarrow> Inl e
      | Inr count \<Rightarrow>
          human_rank_in_list count
            (map snd (filter (\<lambda>(d, count). comparator d (obj target_range))
               (day_to_count count_history))))"

definition share_year :: "DayTimeRange \<Rightarrow> DayTimeRange \<Rightarrow> bool" where
  "share_year range_1 range_2 = (DayTimeRange_year range_1 = DayTimeRange_year range_2)"

definition share_month :: "DayTimeRange \<Rightarrow> DayTimeRange \<Rightarrow> bool" where
  "share_month range_1 range_2 = (DayTimeRange_month range_1 = DayTimeRange_month range_2)"

definition get_rank_of_day_in_year :: "DailyCountHistory \<Rightarrow> DayRef \<Rightarrow> error + int \<times> int" where
  "get_rank_of_day_in_year count_history target_range =
     get_rank_of_day count_history target_range share_year"

definition get_rank_of_day_in_month :: "DailyCountHistory \<Rightarrow> DayRef \<Rightarrow> error + int \<times> int" where
  "get_rank_of_day_in_month count_history target_range =
     get_rank_of_day count_history target_range share_month"

definition extract_month_total :: "DailyCountHistory \<Rightarrow> DayRef \<Rightarrow> int" where
  "extract_month_total count_history target_range =
     sum_list (map snd (filter (\<lambda>(d, count).
         DayTimeRange_month d = DayTimeRange_month (obj target_range))
       (day_to_count count_history)))"

text \<open>Sequencing of calls that can raise.\<close>

definition bind_err :: "error + 'a \<Rightarrow> ('a \<Rightarrow> error + 'b) \<Rightarrow> error + 'b" where
  "bind_err x f = (case x of Inl e \<Rightarrow> Inl e | Inr v \<Rightarrow> f v)"

definition extract_relevant_facts ::
  "DailyCountHistory \<Rightarrow> TimeRange \<Rightarrow> DayRef \<Rightarrow> error + RelevantFact list" where
  "extract_relevant_facts count_history among_range target_range =
     (if \<not> contains among_range (start_date (obj target_range))
         \<or> \<not> contains among_range (end_date (obj target_range))
      then Inl (ValueError ''Arg among_range must contain arg target_range'')
      else
        bind_err (extract_total count_history target_range) (\<lambda>total'.
        bind_err (extract_rank_and_ties_of_day_of_week count_history target_range True) (\<lambda>(r1, n1).
        bind_err (extract_rank_and_ties_of_day_of_week count_history target_range False) (\<lambda>(r2, n2).
        bind_err (day_to_count_getitem count_history target_range) (\<lambda>c3.
        bind_err (get_rank_of_day_in_year count_history target_range) (\<lambda>(r3, n3).
        bind_err (day_to_count_getitem count_history target_range) (\<lambda>c4.
        bind_err (get_rank_of_day_in_month count_history target_range) (\<lambda>(r4, n4).
          Inr [HistoricalTotalRelevantFact (obj target_range) 0 total',
               YearDayOfWeekRankRelevantFact (obj target_range) 0
                 (DayTimeRange_day_of_week (obj target_range)) r1 n1,
               HistoricalDayOfWeekRankRelevantFact (obj target_range) 0
                 (DayTimeRange_day_of_week (obj target_range)) r2 n2,
               DayOfYearRankOfTotalRelevantFact (obj target_range) 0 c3 r3 n3,
               DayOfMonthRankOfTotalRelevantFact (obj target_range) 0 c4 r4 n4,
               MonthTotalRelevantFact (obj target_range) 0
                 (extract_month_total count_history target_range)]))))))))"

section \<open>Ingestion of the counter's answer\<close>

text \<open>
  An answer is a JSON list of lists of strings.  \<^verbatim>\<open>parse_mdy\<close> belongs to
  \<^verbatim>\<open>rivoli.utils\<close> and \<^verbatim>\<open>int(float(s))\<close> works on floating point numbers: both are
  parameters of the model, \<open>parse_mdy\<close> and \<open>to_count\<close>.
\<close>

definition EcoCounterDownloader_check_answer :: "string list list \<Rightarrow> error + bool \<times> string" where
  "EcoCounterDownloader_check_answer answer =
     (case py_getitem answer 0 of
        Inl e \<Rightarrow> Inl e
      | Inr first \<Rightarrow>
          (case py_getitem first 0 of
             Inl e \<Rightarrow> Inl e
           | Inr first_date \<Rightarrow>
               if \<not> first_date \<noteq> ''09/02/2019''
               then Inr (False, ''Expected first day of data: 09/02/2019.'')
               else if set (map length (butlast answer)) \<noteq> {2}
               then Inr (False, ''Expecting a list of pairs'')
               else Inr (True, [])))"

definition EcoCounterDownloader_format_pair ::
  "(string \<Rightarrow> error + datetime) \<Rightarrow> (string \<Rightarrow> error + int) \<Rightarrow> string list
     \<Rightarrow> error + DayTimeRange \<times> int" where
  "EcoCounterDownloader_format_pair parse_mdy to_count pair =
     (if length pair \<noteq> 2 then Inl (ValueError ''Need a pair as argument'')
      else
        (case parse_mdy (pair ! 0) of
           Inl e \<Rightarrow> Inl e
         | Inr date \<Rightarrow>
             (case DayTimeRange_init date of
                Inl e \<Rightarrow> Inl e
              | Inr time_range \<Rightarrow>
                  (case to_count (pair ! 1) of
                     Inl e \<Rightarrow> Inl e
                   | Inr count \<Rightarrow> Inr (time_range, count)))))"

definition EcoCounterDownloader_pad_answer :: "string list list \<Rightarrow> string list list" where
  "EcoCounterDownloader_pad_answer answer = [[''09/01/2019'', ''0'']] @ answer"

text \<open>
  Every \<^verbatim>\<open>DayTimeRange\<close> made by \<^verbatim>\<open>_format_pair\<close> is a new object, so \<^verbatim>\<open>dict\<close> keeps
  one item for each pair.
\<close>

definition EcoCounterDownloader_format_answer ::
  "(string \<Rightarrow> error + datetime) \<Rightarrow> (string \<Rightarrow> error + int) \<Rightarrow> string list list
     \<Rightarrow> error + DailyCountHistory" where
  "EcoCounterDownloader_format_answer parse_mdy to_count answer =
     (case EcoCounterDownloader_check_answer answer of
        Inl e \<Rightarrow> Inl e
      | Inr (is_ok, message) \<Rightarrow>
          if \<not> is_ok
          then Inl (ValueError (''Cannot build count history from url answer, reason: '' @ message))
          else
            (case traverse (EcoCounterDownloader_format_pair parse_mdy to_count)
                    (butlast (EcoCounterDownloader_pad_answer answer)) of
               Inl e \<Rightarrow> Inl e
             | Inr day_to_count' \<Rightarrow> DailyCountHistory_init day_to_count'))"

section \<open>The dictionary\<close>

datatype DictionaryKey =
    Key_HISTORICAL_TOTAL | Key_YEAR_TOTAL | Key_MONTH_TOTAL
  | Key_FIRST | Key_SECOND | Key_THIRD | Key_ITH
  | Key_FEMALE_BEST | Key_MALE_BEST
  | Key_MONDAY | Key_TUESDAY | Key_WEDNESDAY | Key_THURSDAY | Key_FRIDAY | Key_SATURDAY
  | Key_SUNDAY
  | Key_SINCE_BEGINING | Key_SINCE_BEGINING_OF_YEAR | Key_SINCE_BEGINING_OF_MONTH
  | Key_DAY_OF_MONTH | Key_DAY_OF_YEAR | Key_DAY_OF_HISTORY
  | Key_MONTH_OF_YEAR | Key_MONTH_OF_HISTORY | Key_YEAR_OF_HISTORY
  | Key_YESTERDAY | Key_TODAY

datatype Language = FR | EN

text \<open>The enum's table of values, and the lookup by value of \<^verbatim>\<open>DictionaryKey(s)\<close>.\<close>

definition DictionaryKey_values :: "(string \<times> DictionaryKey) list" where
  "DictionaryKey_values =
     [(''HISTORICAL_TOTAL'', Key_HISTORICAL_TOTAL), (''YEAR_TOTAL'', Key_YEAR_TOTAL),
      (''MONTH_TOTAL'', Key_MONTH_TOTAL), (''FIRST'', Key_FIRST), (''SECOND'', Key_SECOND),
      (''THIRD'', Key_THIRD), (''ITH'', Key_ITH), (''FEMALE_BEST'', Key_FEMALE_BEST),
      (''MALE_BEST'', Key_MALE_BEST), (''MONDAY'', Key_MONDAY), (''TUESDAY'', Key_TUESDAY),
      (''WEDNESDAY'', Key_WEDNESDAY), (''THURSDAY'', Key_THURSDAY), (''FRIDAY'', Key_FRIDAY),
      (''SATURDAY'', Key_SATURDAY), (''SUNDAY'', Key_SUNDAY),
      (''SINCE_BEGINING'', Key_SINCE_BEGINING),
      (''SINCE_BEGINING_OF_YEAR'', Key_SINCE_BEGINING_OF_YEAR),
      (''SINCE_BEGINING_OF_MONTH'', Key_SINCE_BEGINING_OF_MONTH),
      (''DAY_OF_MONTH'', Key_DAY_OF_MONTH), (''DAY_OF_YEAR'', Key_DAY_OF_YEAR),
      (''DAY_OF_HISTORY'', Key_DAY_OF_HISTORY), (''MONTH_OF_YEAR'', Key_MONTH_OF_YEAR),
      (''MONTH_OF_HISTORY'', Key_MONTH_OF_HISTORY), (''YEAR_OF_HISTORY'', Key_YEAR_OF_HISTORY),
      (''YESTERDAY'', Key_YESTERDAY), (''TODAY'', Key_TODAY)]"

definition DictionaryKey_of :: "string \<Rightarrow> error + DictionaryKey" where
  "DictionaryKey_of s =
     (case map_of DictionaryKey_values s of
        None \<Rightarrow> Inl (ValueError ''is not a valid DictionaryKey'')
      | Some k \<Rightarrow> Inr k)"

definition Language_of :: "string \<Rightarrow> error + Language" where
  "Language_of s =
     (if s = ''fr'' then Inr FR else if s = ''en'' then Inr EN
      else Inl (ValueError ''is not a valid Language''))"

text \<open>
  JSON values as \<^verbatim>\<open>json.loads\<close> returns them; a JSON object is a \<^verbatim>\<open>dict\<close> with string
  keys, given by its items.
\<close>

datatype json =
    JNull
  | JBool bool
  | JNumber int
  | JString string
  | JArray "json list"
  | JObject "(string \<times> json) list"

fun isinstance_dict :: "json \<Rightarrow> bool" where
  "isinstance_dict (JObject kvs) = True"
| "isinstance_dict j = False"

text \<open>\<^verbatim>\<open>x.items()\<close> exists on a dict only.\<close>

fun json_items :: "json \<Rightarrow> error + (string \<times> json) list" where
  "json_items (JObject kvs) = Inr kvs"
| "json_items j = Inl AttributeError"

text \<open>A dict comprehension over keys compared by value: later items overwrite.\<close>

definition dict_of_items :: "('k \<times> 'v) list \<Rightarrow> ('k \<times> 'v) list" where
  "dict_of_items kvs = foldl (\<lambda>acc (k, v). AList.update k v acc) [] kvs"

type_synonym Dictionary = "(DictionaryKey \<times> (Language \<times> json) list) list"

definition Dictionary_check_json :: "json \<Rightarrow> bool \<times> string" where
  "Dictionary_check_json json_dictionary =
     (if isinstance_dict json_dictionary
      then (False, ''json_dictionary must be of type dict'')
      else (True, []))"

definition language_to_sentence_of_json :: "json \<Rightarrow> error + (Language \<times> json) list" where
  "language_to_sentence_of_json language_to_sentence =
     (case json_items language_to_sentence of
        Inl e \<Rightarrow> Inl e
      | Inr kvs \<Rightarrow>
          (case traverse (\<lambda>(language, sentence).
                    case Language_of language of Inl e \<Rightarrow> Inl e | Inr l \<Rightarrow> Inr (l, sentence)) kvs of
             Inl e \<Rightarrow> Inl e
           | Inr ps \<Rightarrow> Inr (dict_of_items ps)))"

definition Dictionary_from_json :: "json \<Rightarrow> error + Dictionary" where
  "Dictionary_from_json json_dictionary =
     (case Dictionary_check_json json_dictionary of
        (is_ok, message) \<Rightarrow>
          if \<not> is_ok then Inl (ValueError message)
          else
            (case json_items json_dictionary of
               Inl e \<Rightarrow> Inl e
             | Inr kvs \<Rightarrow>
                 (case traverse (\<lambda>(dict_key, language_to_sentence).
                           case DictionaryKey_of dict_key of
                             Inl e \<Rightarrow> Inl e
                           | Inr k \<Rightarrow>
                               (case language_to_sentence_of_json language_to_sentence of
                                  Inl e \<Rightarrow> Inl e
                                | Inr v \<Rightarrow> Inr (k, v))) kvs of
                    Inl e \<Rightarrow> Inl e
                  | Inr ps \<Rightarrow> Inr (dict_of_items ps))))"

text \<open>
  The well-formed inputs of \<^verbatim>\<open>from_json\<close>, in the specification's words: a mapping from
  known dictionary-key strings to mappings from known language codes to strings.
\<close>

fun is_JString :: "json \<Rightarrow> bool" where
  "is_JString (JString s) = True"
| "is_JString j = False"

fun well_formed_sentences :: "json \<Rightarrow> bool" where
  "well_formed_sentences (JObject lvs) =
     (distinct (map fst lvs)
      \<and> list_all (\<lambda>(l, s). (l = ''fr'' \<or> l = ''en'') \<and> is_JString s) lvs)"
| "well_formed_sentences j = False"

fun well_formed_json_dictionary :: "json \<Rightarrow> bool" where
  "well_formed_json_dictionary (JObject kvs) =
     (distinct (map fst kvs)
      \<and> list_all (\<lambda>(k, v). map_of DictionaryKey_values k \<noteq> None \<and> well_formed_sentences v) kvs)"
| "well_formed_json_dictionary j = False"

section \<open>The parsers of the ingestion\<close>

text \<open>Decimal digits and the number a string of digits denotes.\<close>

definition digit_value :: "char \<Rightarrow> nat option" where
  "digit_value c =
     (let code = (of_char c :: nat)
      in if 48 \<le> code \<and> code \<le> 57 then Some (code - 48) else None)"

fun digits_value :: "string \<Rightarrow> nat \<Rightarrow> nat option" where
  "digits_value [] acc = Some acc"
| "digits_value (c # cs) acc =
     (case digit_value c of None \<Rightarrow> None | Some v \<Rightarrow> digits_value cs (10 * acc + v))"

text \<open>
  Modelled from the spec: \<^verbatim>\<open>parse_mdy\<close> of \<^verbatim>\<open>rivoli.utils\<close> is not part of the source
  file.  The specification calls its argument a date string, and the dates of the source
  are written month/day/year with two, two and four digits (\<^verbatim>\<open>09/02/2019\<close>); the
  result is the datetime of that day at midnight, a \<^verbatim>\<open>ValueError\<close> for any other string.
\<close>

definition parse_mdy :: "string \<Rightarrow> error + datetime" where
  "parse_mdy s =
     (if length s = 10 \<and> s ! 2 = CHR ''/'' \<and> s ! 5 = CHR ''/'' then
        (case (digits_value (take 2 s) 0, digits_value (take 2 (drop 3 s)) 0,
               digits_value (drop 6 s) 0) of
           (Some m, Some d, Some y) \<Rightarrow>
             if valid_datetime (datetime_ymd y m d) then Inr (datetime_ymd y m d)
             else Inl (ValueError ''day is out of range for month'')
         | _ \<Rightarrow> Inl (ValueError ''time data does not match format''))
      else Inl (ValueError ''time data does not match format''))"

text \<open>
  \<^verbatim>\<open>int(float(s))\<close> on the strings of one to fifteen decimal digits, where the float is
  exact and the result is the number written.  Other strings are outside this instance,
  which rejects them; it is used on the concrete answers below only.
\<close>

definition int_of_float_string :: "string \<Rightarrow> error + int" where
  "int_of_float_string s =
     (if s \<noteq> [] \<and> length s \<le> 15 then
        (case digits_value s 0 of
           None \<Rightarrow> Inl (ValueError ''could not convert string to float'')
         | Some n \<Rightarrow> Inr (int n))
      else Inl (ValueError ''could not convert string to float''))"

section \<open>Concrete inputs\<close>

text \<open>
  The scenario of the specification: the first four days of September 2019 with the
  counts 0, 5, 5 and 3.
\<close>

definition september_day :: "nat \<Rightarrow> nat \<Rightarrow> DayTimeRange" where
  "september_day y d =
     \<lparr>start_date = datetime_ymd y 9 d, end_date = datetime_ymd y 9 (d + 1)\<rparr>"

definition scenario_counts :: "(DayTimeRange \<times> int) list" where
  "scenario_counts =
     [(september_day 2019 1, 0), (september_day 2019 2, 5), (september_day 2019 3, 5),
      (september_day 2019 4, 3)]"

definition scenario_history :: DailyCountHistory where
  "scenario_history = projr (DailyCountHistory_init scenario_counts)"

text \<open>The target of the scenario, the third key of the history: 2019-09-03.\<close>

definition scenario_target :: DayRef where
  "scenario_target = \<lparr>obj = september_day 2019 3, key_pos = Some 2\<rparr>"

text \<open>A history over two Septembers, and its first key as the target.\<close>

definition two_septembers :: "(DayTimeRange \<times> int) list" where
  "two_septembers = [(september_day 2019 2, 5), (september_day 2020 2, 7)]"

definition two_septembers_history :: DailyCountHistory where
  "two_septembers_history = projr (DailyCountHistory_init two_septembers)"

definition two_septembers_target :: DayRef where
  "two_septembers_target = \<lparr>obj = september_day 2019 2, key_pos = Some 0\<rparr>"

text \<open>
  Answers of the counter: one of two pairs, and one of three pairs that starts at the
  expected first day of data.
\<close>

definition two_pair_answer :: "string list list" where
  "two_pair_answer = [[''09/03/2019'', ''5''], [''09/04/2019'', ''3'']]"

definition expected_start_answer :: "string list list" where
  "expected_start_answer = [[''09/02/2019'', ''5''], [''09/03/2019'', ''3''], [''09/04/2019'', ''4'']]"

text \<open>A well-formed dictionary with one key and both languages.\<close>

definition one_entry_json :: json where
  "one_entry_json =
     JObject [(''FIRST'', JObject [(''fr'', JString ''premier''), (''en'', JString ''first'')])]"

declare bisect.simps [simp del] count_ties.simps [simp del]

section \<open>Properties of the TimeRange hierarchy\<close>

lemma dt_le_refl: "dt_le d d"
  by (simp add: dt_le_def)

lemma dt_lt_irrefl: "\<not> dt_lt d d"
  by (simp add: dt_lt_def)

lemma add_one_day_greater: "add_one_day d = Inr e \<Longrightarrow> dt_lt d e"
  by (auto simp: add_one_day_def dt_lt_def dt_key_def split: if_splits)

lemma add_one_hour_greater: "add_one_hour d = Inr e \<Longrightarrow> dt_lt d e"
  by (auto simp: add_one_hour_def add_one_day_def dt_lt_def dt_key_def split: if_splits)

text \<open>
  Claim C6, as amended.  For every range a constructor returns: an Hour, Day, Month or
  Year range contains its own start, and a Custom or Historical range contains its start
  exactly when its start lies before its end (the constructor accepts any two instants).
  Day, Hour, Custom and Historical ranges are half-open: they contain \<open>d\<close> iff
  \<open>start \<le> d < end\<close>, and never their end.  A Month range contains \<open>d\<close> iff \<open>d\<close> has the
  year and month of the start, a Year range iff \<open>d\<close> has the year of the start.
\<close>

theorem contains_start_and_half_open:
  assumes "constructed r"
  shows "(case r of
       CustomTimeRange s e \<Rightarrow> contains r (TimeRange_start r) = dt_lt s e
     | HistoricalTimeRange s e \<Rightarrow> contains r (TimeRange_start r) = dt_lt s e
     | _ \<Rightarrow> contains r (TimeRange_start r))
   \<and> (case r of
       MonthTimeRange s \<Rightarrow> (\<forall>d. contains r d = (year d = year s \<and> month d = month s))
     | YearTimeRange s \<Rightarrow> (\<forall>d. contains r d = (year d = year s))
     | CustomTimeRange s e \<Rightarrow> (\<forall>d. contains r d = (dt_le s d \<and> dt_lt d e)) \<and> \<not> contains r e
     | HistoricalTimeRange s e \<Rightarrow>
         (\<forall>d. contains r d = (dt_le s d \<and> dt_lt d e)) \<and> \<not> contains r e
     | DayRange t \<Rightarrow>
         (\<forall>d. contains r d = (dt_le (start_date t) d \<and> dt_lt d (end_date t)))
         \<and> \<not> contains r (end_date t)
     | HourTimeRange s e \<Rightarrow> (\<forall>d. contains r d = (dt_le s d \<and> dt_lt d e)) \<and> \<not> contains r e)"
proof (cases r)
  case (DayRange t)
  with assms have "DayTimeRange_init (start_date t) = Inr t"
    by (simp add: constructed_def)
  then have "add_one_day (start_date t) = Inr (end_date t)"
    by (cases t) (auto simp: DayTimeRange_init_def split: sum.splits)
  then have "dt_lt (start_date t) (end_date t)"
    by (rule add_one_day_greater)
  with DayRange show ?thesis
    by (auto simp: dt_le_refl dt_lt_irrefl)
next
  case (HourTimeRange s e)
  with assms have "add_one_hour s = Inr e"
    by (auto simp: constructed_def HourTimeRange_init_def split: sum.splits)
  then have "dt_lt s e"
    by (rule add_one_hour_greater)
  with HourTimeRange show ?thesis
    by (auto simp: dt_le_refl dt_lt_irrefl)
qed (auto simp: dt_le_refl dt_lt_irrefl)

theorem contains_start_and_half_open_witness:
  "constructed (DayRange \<lparr>start_date = datetime_ymd 2019 9 2, end_date = datetime_ymd 2019 9 3\<rparr>)
   \<and> contains (DayRange \<lparr>start_date = datetime_ymd 2019 9 2, end_date = datetime_ymd 2019 9 3\<rparr>)
       (datetime_ymd 2019 9 2)
   \<and> \<not> contains (DayRange \<lparr>start_date = datetime_ymd 2019 9 2, end_date = datetime_ymd 2019 9 3\<rparr>)
       (datetime_ymd 2019 9 3)"
proof -
  have h: "constructed
      (DayRange \<lparr>start_date = datetime_ymd 2019 9 2, end_date = datetime_ymd 2019 9 3\<rparr>)"
    by (simp add: constructed_def DayTimeRange_init_def DayTimeRange_check_def add_one_day_def
        datetime_ymd_def days_in_month_def)
  from contains_start_and_half_open [OF h] h show ?thesis
    by simp
qed

text \<open>
  Claim C6 as stated fails: the Custom range from an instant to the same instant is
  constructed and does not contain its start.
\<close>

theorem custom_range_misses_start:
  "constructed (CustomTimeRange (datetime_ymd 2020 1 1) (datetime_ymd 2020 1 1))
   \<and> \<not> contains (CustomTimeRange (datetime_ymd 2020 1 1) (datetime_ymd 2020 1 1))
         (TimeRange_start (CustomTimeRange (datetime_ymd 2020 1 1) (datetime_ymd 2020 1 1)))"
  by (simp add: constructed_def CustomTimeRange_init_def dt_lt_irrefl)

text \<open>
  Claim C7, as amended.  Construction raises the validation error exactly when the check
  of the unit fails: a Day range iff the hour, the minute or the second is non-zero (the
  microsecond is not looked at), a Month range iff the Day check fails or the day of the
  month is not 1, a Year range iff the Month check fails or the month is not 1, an Hour
  range iff the minute or the second is non-zero.
\<close>

theorem construction_validates_alignment:
  "is_ValueError (DayTimeRange_init d) = (hour d \<noteq> 0 \<or> minute d \<noteq> 0 \<or> second d \<noteq> 0)
   \<and> is_ValueError (MonthTimeRange_init d) = (is_ValueError (DayTimeRange_check d) \<or> day d \<noteq> 1)
   \<and> is_ValueError (YearTimeRange_init d)
       = (is_ValueError (MonthTimeRange_check d) \<or> month d \<noteq> 1)
   \<and> is_ValueError (HourTimeRange_init d) = (minute d \<noteq> 0 \<or> second d \<noteq> 0)"
  by (auto simp: DayTimeRange_init_def MonthTimeRange_init_def YearTimeRange_init_def
      HourTimeRange_init_def DayTimeRange_check_def MonthTimeRange_check_def
      YearTimeRange_check_def HourTimeRange_check_def add_one_day_def add_one_hour_def
      split: sum.splits if_splits)

theorem construction_validates_alignment_witness:
  "is_ValueError (DayTimeRange_init (datetime_ymd 2019 9 2\<lparr>hour := 5\<rparr>))
   \<and> is_ValueError (MonthTimeRange_init (datetime_ymd 2019 9 2))
   \<and> is_ValueError (YearTimeRange_init (datetime_ymd 2019 9 1))
   \<and> \<not> is_ValueError (YearTimeRange_init (datetime_ymd 2019 1 1))
   \<and> is_ValueError (HourTimeRange_init (datetime_ymd 2019 9 2\<lparr>minute := 30\<rparr>))"
  using construction_validates_alignment [of "datetime_ymd 2019 9 2\<lparr>hour := 5\<rparr>"]
    construction_validates_alignment [of "datetime_ymd 2019 9 2"]
    construction_validates_alignment [of "datetime_ymd 2019 9 1"]
    construction_validates_alignment [of "datetime_ymd 2019 1 1"]
    construction_validates_alignment [of "datetime_ymd 2019 9 2\<lparr>minute := 30\<rparr>"]
  by (simp add: datetime_ymd_def DayTimeRange_check_def MonthTimeRange_check_def)

text \<open>
  Claim C7 as stated fails: an instant with a non-zero microsecond has a non-zero
  time-of-day field, and the Day range is constructed from it.
\<close>

theorem day_range_with_microsecond:
  "microsecond (datetime_ymd 2020 1 1\<lparr>microsecond := 1\<rparr>) \<noteq> 0
   \<and> DayTimeRange_init (datetime_ymd 2020 1 1\<lparr>microsecond := 1\<rparr>)
       = Inr \<lparr>start_date = datetime_ymd 2020 1 1\<lparr>microsecond := 1\<rparr>,
              end_date = datetime_ymd 2020 1 2\<lparr>microsecond := 1\<rparr>\<rparr>"
  by (simp add: DayTimeRange_init_def DayTimeRange_check_def add_one_day_def datetime_ymd_def
      days_in_month_def)

section \<open>Properties of the ranking engine\<close>

lemma bisect_spec:
  assumes "left < right" "right < length sl"
    "ext_gt (sl ! left) (Fin q)" "\<not> ext_gt (sl ! right) (Fin q)"
  shows "\<exists>r. bisect sl q left right = Inr r \<and> left < r \<and> r \<le> right
           \<and> ext_gt (sl ! (r - 1)) (Fin q) \<and> \<not> ext_gt (sl ! r) (Fin q)"
  using assms
proof (induction sl q left right rule: bisect.induct)
  case (1 sl q left right)
  show ?case
  proof (cases "left < right - 1")
    case False
    with "1.prems" have "right - 1 = left" by simp
    with False "1.prems" show ?thesis by (subst bisect.simps) simp
  next
    case True
    let ?m = "(left + right) div 2"
    from True have m: "left < ?m" "?m < right" by auto
    with "1.prems" have get: "py_getitem sl ?m = Inr (sl ! ?m)"
      by (simp add: py_getitem_def)
    show ?thesis
    proof (cases "ext_gt (sl ! ?m) (Fin q)")
      case gt: True
      from "1.IH"(1)[OF True get gt m(2) "1.prems"(2) gt "1.prems"(4)]
      obtain r where "bisect sl q ?m right = Inr r" "?m < r" "r \<le> right"
        "ext_gt (sl ! (r - 1)) (Fin q)" "\<not> ext_gt (sl ! r) (Fin q)" by blast
      with True get gt m show ?thesis by (subst bisect.simps) auto
    next
      case ngt: False
      from m "1.prems" have "?m < length sl" by simp
      from "1.IH"(2)[OF True get ngt m(1) this "1.prems"(3) ngt]
      obtain r where "bisect sl q left ?m = Inr r" "left < r" "r \<le> ?m"
        "ext_gt (sl ! (r - 1)) (Fin q)" "\<not> ext_gt (sl ! r) (Fin q)" by blast
      with True get ngt m show ?thesis by (subst bisect.simps) auto
    qed
  qed
qed

lemma boundary_unique:
  assumes "\<forall>x\<in>set U. P x" "\<forall>x\<in>set V. \<not> P x"
    "0 < r" "r < length (U @ V)" "P ((U @ V) ! (r - 1))" "\<not> P ((U @ V) ! r)"
  shows "r = length U"
proof (rule ccontr)
  assume "r \<noteq> length U"
  then consider "r < length U" | "length U < r" by linarith
  then show False
  proof cases
    case 1
    then have "(U @ V) ! r \<in> set U" by (simp add: nth_append)
    with assms show False by blast
  next
    case 2
    then have "(U @ V) ! (r - 1) = V ! (r - 1 - length U)" "r - 1 - length U < length V"
      using assms by (auto simp: nth_append)
    then have "(U @ V) ! (r - 1) \<in> set V" by simp
    with assms show False by blast
  qed
qed

lemma partition_sorted_desc:
  fixes ys :: "int list"
  assumes "sorted_wrt (\<ge>) ys" "\<And>x y. x \<ge> y \<Longrightarrow> Q y \<Longrightarrow> Q x"
  shows "ys = filter Q ys @ filter (\<lambda>x. \<not> Q x) ys"
  using assms(1)
proof (induction ys)
  case Nil
  then show ?case by simp
next
  case (Cons y ys)
  show ?case
  proof (cases "Q y")
    case True
    with Cons show ?thesis by simp
  next
    case False
    have "\<forall>x\<in>set ys. \<not> Q x"
    proof
      fix x assume "x \<in> set ys"
      with Cons.prems have "y \<ge> x" by auto
      with False assms(2) show "\<not> Q x" by blast
    qed
    then have "filter Q ys = []" "filter (\<lambda>x. \<not> Q x) ys = ys" by (auto simp: filter_empty_conv filter_id_conv)
    with False show ?thesis by simp
  qed
qed

lemma sorted_desc_rev_sort: "sorted_wrt (\<ge>) (rev (sort (xs::int list)))"
  by (simp add: sorted_wrt_rev) 

lemma count_ties_eq:
  "count_ties sl q r n = Inr (n + int (length (takeWhile (\<lambda>x. x = Fin q) (drop r sl))))"
proof (induction sl q r n rule: count_ties.induct)
  case (1 sl q r n)
  show ?case
  proof (cases "r < length sl")
    case False
    then show ?thesis by (subst count_ties.simps) simp
  next
    case True
    then have d: "drop r sl = sl ! r # drop (Suc r) sl" by (simp add: Cons_nth_drop_Suc)
    from True have get: "py_getitem sl r = Inr (sl ! r)" by (simp add: py_getitem_def)
    show ?thesis
    proof (cases "sl ! r = Fin q")
      case eq: True
      from "1.IH"[OF True get eq] True get eq d show ?thesis
        by (subst count_ties.simps) simp
    next
      case False
      with True get d show ?thesis by (subst count_ties.simps) simp
    qed
  qed
qed

lemma takeWhile_none: "\<forall>x\<in>set zs. \<not> P x \<Longrightarrow> takeWhile P zs = []"
  by (cases zs) auto

lemma human_rank_in_list_eq:
  "human_rank_in_list v pop =
     Inr (1 + int (length (filter (\<lambda>x. x > v) pop)), int (length (filter (\<lambda>x. x = v) pop)) - 1)"
proof -
  define ys where "ys = rev (sort pop)"
  define G where "G = filter (\<lambda>x. x > v) ys"
  define R where "R = filter (\<lambda>x. \<not> x > v) ys"
  define E where "E = filter (\<lambda>x. x \<ge> v) R"
  define L where "L = filter (\<lambda>x. \<not> x \<ge> v) R"
  define U where "U = PlusInf # map Fin G"
  define V where "V = map Fin E @ map Fin L @ [MinusInf]"
  define sl where "sl = [PlusInf] @ map Fin ys @ [MinusInf]"
  have sd: "sorted_wrt (\<ge>) ys" unfolding ys_def by (rule sorted_desc_rev_sort)
  have ys: "ys = G @ R" unfolding G_def R_def
    by (rule partition_sorted_desc[OF sd]) simp
  have "sorted_wrt (\<ge>) R" unfolding R_def using sd by (rule sorted_wrt_filter)
  then have R: "R = E @ L" unfolding E_def L_def
    by (rule partition_sorted_desc) simp
  have sl: "sl = U @ V" unfolding sl_def U_def V_def using ys R by simp
  have PU: "\<forall>x\<in>set U. ext_gt x (Fin v)" unfolding U_def G_def by auto
  have PV: "\<forall>x\<in>set V. \<not> ext_gt x (Fin v)" unfolding V_def E_def L_def R_def by auto
  have len: "length sl - 1 < length sl" "0 < length sl - 1" unfolding sl_def by simp_all
  have first: "ext_gt (sl ! 0) (Fin v)" unfolding sl_def by simp
  have last: "\<not> ext_gt (sl ! (length sl - 1)) (Fin v)" unfolding sl_def
    by (simp add: nth_append)
  from bisect_spec[OF len(2) len(1) first last]
  obtain r where r: "bisect sl v 0 (length sl - 1) = Inr r" "0 < r" "r \<le> length sl - 1"
    "ext_gt (sl ! (r - 1)) (Fin v)" "\<not> ext_gt (sl ! r) (Fin v)" by blast
  from r(3) len have "r < length (U @ V)" unfolding sl by simp
  with boundary_unique[OF PU PV r(2)] r(4,5) have rU: "r = length U" unfolding sl by blast
  have Eq: "\<forall>x\<in>set (map Fin E). x = Fin v" unfolding E_def R_def by auto
  have Ln: "\<forall>x\<in>set (map Fin L @ [MinusInf]). x \<noteq> Fin v" unfolding L_def R_def by auto
  have "drop r sl = V" unfolding sl rU by simp
  moreover have "takeWhile (\<lambda>x. x = Fin v) (map Fin E @ (map Fin L @ [MinusInf]))
      = map Fin E @ takeWhile (\<lambda>x. x = Fin v) (map Fin L @ [MinusInf])"
    by (rule takeWhile_append2) (use Eq in blast)
  ultimately have "takeWhile (\<lambda>x. x = Fin v) (drop r sl) = map Fin E"
    unfolding V_def using takeWhile_none[OF Ln] by simp
  then have ties: "count_ties sl v r 0 = Inr (int (length E))"
    by (simp add: count_ties_eq)
  have "E = filter (\<lambda>x. x = v) ys" unfolding E_def R_def by (auto intro: filter_cong)
  then have lenE: "length E = length (filter (\<lambda>x. x = v) pop)"
    unfolding ys_def by (simp add: rev_filter[symmetric] filter_sort)
  have lenG: "length G = length (filter (\<lambda>x. x > v) pop)"
    unfolding G_def ys_def by (simp add: rev_filter[symmetric] filter_sort)
  have hr: "human_rank_in_list v pop =
      (case bisect sl v 0 (length sl - 1) of
         Inl e \<Rightarrow> Inl e
       | Inr right \<Rightarrow>
           (case count_ties sl v right 0 of
              Inl e \<Rightarrow> Inl e
            | Inr nb_ties \<Rightarrow> Inr (int right, nb_ties - 1)))"
    unfolding human_rank_in_list_def Let_def sl_def ys_def by (rule refl)
  have "human_rank_in_list v pop = Inr (int r, int (length E) - 1)"
    by (simp only: hr r(1) ties sum.case)
  with rU lenE lenG show ?thesis
    unfolding U_def by simp
qed

text \<open>Two populations with the same number of occurrences of every value give the same result.\<close>

lemma count_list_filter:
  "count_list (filter P xs) x = (if P x then count_list xs x else 0)"
  by (induction xs) auto

lemma length_filter_by_counts:
  assumes "\<And>x. count_list xs x = count_list ys x"
  shows "length (filter P xs) = length (filter P ys)"
proof -
  let ?X = "set xs \<union> set ys"
  have "length (filter P xs) = sum (count_list (filter P xs)) ?X"
    by (rule sum_count_set[symmetric]) auto
  also have "\<dots> = sum (count_list (filter P ys)) ?X"
    by (rule sum.cong) (simp_all add: count_list_filter assms)
  also have "\<dots> = length (filter P ys)"
    by (rule sum_count_set) auto
  finally show ?thesis .
qed

lemma human_rank_in_list_permutation:
  assumes "\<And>x. count_list pop x = count_list pop' x"
  shows "human_rank_in_list v pop = human_rank_in_list v pop'"
  by (simp add: human_rank_in_list_eq length_filter_by_counts[OF assms])

text \<open>
  Claim C1.  The rank returned by \<open>human_rank_in_list\<close> is the index found in the list
  padded with the sentinels, which is one more than the number of elements strictly
  greater than the value: for the value 5 in \<open>[0, 5, 5, 3]\<close> no element is greater and the
  rank returned is 1, where the claim says 0.
\<close>

theorem human_rank_of_best_is_one:
  "human_rank_in_list 5 [0, 5, 5, 3] = Inr (1, 1)
   \<and> length (filter (\<lambda>x. x > 5) [0, 5, 5, 3 :: int]) = 0"
  by (simp add: human_rank_in_list_eq)

text \<open>
  Claim C2.  The tie count returned by \<open>human_rank_in_list\<close> is the number of elements
  of the population equal to the value, minus 1; it is \<open>-1\<close> when no element is equal.
\<close>

theorem tie_count_is_matches_minus_one:
  "(\<exists>rank. human_rank_in_list v pop
       = Inr (rank, int (length (filter (\<lambda>x. x = v) pop)) - 1))
   \<and> (v \<notin> set pop \<longrightarrow> (\<exists>rank. human_rank_in_list v pop = Inr (rank, - 1)))"
proof -
  have "v \<notin> set pop \<Longrightarrow> filter (\<lambda>x. x = v) pop = []"
    by (auto simp: filter_empty_conv)
  then show ?thesis
    by (auto simp: human_rank_in_list_eq)
qed

theorem tie_count_is_matches_minus_one_witness:
  "(10 :: int) \<notin> set [0, 5, 5, 3] \<and> human_rank_in_list 10 [0, 5, 5, 3] = Inr (1, - 1)"
  using tie_count_is_matches_minus_one [of 10 "[0, 5, 5, 3]"]
  by (simp add: human_rank_in_list_eq)

section \<open>Properties of the daily count history\<close>

lemma month_time_range_ok:
  "DayTimeRange_month_time_range d
     = Inr (MonthTimeRange (datetime_ymd (year (start_date d)) (month (start_date d)) 1))"
  by (simp add: DayTimeRange_month_time_range_def MonthTimeRange_init_def
      MonthTimeRange_check_def DayTimeRange_check_def datetime_ymd_def)

lemma year_time_range_ok:
  "DayTimeRange_year_time_range d = Inr (YearTimeRange (datetime_ymd (year (start_date d)) 1 1))"
  by (simp add: DayTimeRange_year_time_range_def YearTimeRange_init_def YearTimeRange_check_def
      MonthTimeRange_check_def DayTimeRange_check_def datetime_ymd_def)

lemma group_by_month_loop_eq:
  "group_by_month_loop es acc =
     Inr (acc @ map (\<lambda>(d, c).
        (MonthTimeRange (datetime_ymd (year (start_date d)) (month (start_date d)) 1), [c])) es)"
  by (induction es acc rule: group_by_month_loop.induct) (simp_all add: month_time_range_ok)

lemma group_by_month_eq:
  "group_by_month es =
     Inr (map (\<lambda>(d, c).
        (MonthTimeRange (datetime_ymd (year (start_date d)) (month (start_date d)) 1), c)) es)"
  by (simp add: group_by_month_def group_by_month_loop_eq case_prod_unfold)

lemma group_by_year_loop_eq:
  "group_by_year_loop es acc =
     Inr (acc @ map (\<lambda>(d, c). (YearTimeRange (datetime_ymd (year (start_date d)) 1 1), [c])) es)"
  by (induction es acc rule: group_by_year_loop.induct) (simp_all add: year_time_range_ok)

lemma group_by_year_eq:
  "group_by_year es =
     Inr (map (\<lambda>(d, c). (YearTimeRange (datetime_ymd (year (start_date d)) 1 1), c)) es)"
  by (simp add: group_by_year_def group_by_year_loop_eq case_prod_unfold)

lemma traverse_ok:
  "(\<And>x. x \<in> set xs \<Longrightarrow> \<exists>y. f x = Inr y) \<Longrightarrow> \<exists>ys. traverse f xs = Inr ys"
proof (induction xs)
  case Nil
  then show ?case by simp
next
  case (Cons x xs)
  then obtain y ys where "f x = Inr y" "traverse f xs = Inr ys"
    by (metis list.set_intros)
  then show ?case by simp
qed

lemma set_AList_update_subset: "set (AList.update k v al) \<subseteq> insert (k, v) (set al)"
  by (induction al) auto

lemma best_count_loop_nonempty:
  "\<forall>(k, cs) \<in> set acc. cs \<noteq> [] \<Longrightarrow> \<forall>(k, cs) \<in> set (best_count_loop es acc). cs \<noteq> []"
proof (induction es acc rule: best_count_loop.induct)
  case (1 acc)
  then show ?case by simp
next
  case (2 d count rest acc)
  let ?k = "DayTimeRange_day_of_week d"
  let ?v = "(case map_of acc ?k of None \<Rightarrow> [] | Some cs \<Rightarrow> cs) @ [count]"
  have "\<forall>(k, cs) \<in> set (AList.update ?k ?v acc). cs \<noteq> []"
    using "2.prems" set_AList_update_subset[of ?k ?v acc] by auto
  with "2.IH"[OF refl] show ?case by (simp add: Let_def)
qed

lemma extract_best_ok: "\<exists>best. extract_day_of_week_to_best_count es = Inr best"
  unfolding extract_day_of_week_to_best_count_def
proof (rule traverse_ok)
  fix x assume "x \<in> set (best_count_loop es [])"
  with best_count_loop_nonempty[of "[]" es] have "snd x \<noteq> []" by auto
  then show "\<exists>y. (case x of (day_of_week, counts) \<Rightarrow>
      case py_max counts of Inl e \<Rightarrow> Inl e | Inr m \<Rightarrow> Inr (day_of_week, m)) = Inr y"
    by (cases x; cases "snd x") auto
qed

lemma cumsum_loop_keys: "map fst (cumsum_loop es c acc) = map fst acc @ map fst es"
  by (induction es c acc rule: cumsum_loop.induct) simp_all

lemma cumsum_loop_sorted:
  "sorted (map snd acc) \<Longrightarrow> \<forall>v \<in> set (map snd acc). v \<le> c \<Longrightarrow> \<forall>(k, x) \<in> set es. 0 \<le> x
     \<Longrightarrow> sorted (map snd (cumsum_loop es c acc))"
proof (induction es c acc rule: cumsum_loop.induct)
  case (1 c acc)
  then show ?case by simp
next
  case (2 k count rest c acc)
  from "2.prems" have "0 \<le> count" by simp
  with "2.prems" have "sorted (map snd (acc @ [(k, c + count)]))"
    "\<forall>v \<in> set (map snd (acc @ [(k, c + count)])). v \<le> c + count"
    by (auto simp: sorted_append)
  with "2.IH" "2.prems"(3) show ?case by simp
qed

lemma cumsum_loop_last:
  "es \<noteq> [] \<Longrightarrow> snd (last (cumsum_loop es c acc)) = c + sum_list (map snd es)"
proof (induction es c acc rule: cumsum_loop.induct)
  case (1 c acc)
  then show ?case by simp
next
  case (2 k count rest c acc)
  show ?case
  proof (cases rest)
    case Nil
    then show ?thesis by simp
  next
    case (Cons a list)
    with "2.IH" show ?thesis by (simp add: add.assoc)
  qed
qed

lemma sum_list_insort_key:
  "sum_list (map g (insort_key f x xs)) = (g x :: int) + sum_list (map g xs)"
  by (induction xs) (simp_all add: add.left_commute)

lemma sum_list_sort_key: "sum_list (map g (sort_key f xs)) = sum_list (map (g :: 'a \<Rightarrow> int) xs)"
  by (induction xs) (simp_all add: sum_list_insort_key)

lemma time_range_to_cumsum_props:
  assumes "\<forall>(k, x) \<in> set m. 0 \<le> x"
  shows "sorted (map (\<lambda>x. dt_key (start (fst x))) (time_range_to_cumsum start m))"
    and "sorted (map snd (time_range_to_cumsum start m))"
    and "m \<noteq> [] \<Longrightarrow> snd (last (time_range_to_cumsum start m)) = sum_list (map snd m)"
    and "length (time_range_to_cumsum start m) = length m"
proof -
  let ?s = "sort_key (\<lambda>x. dt_key (start (fst x))) m"
  have keys: "map fst (time_range_to_cumsum start m) = map fst ?s"
    by (simp add: time_range_to_cumsum_def cumsum_loop_keys)
  have "map (\<lambda>x. dt_key (start (fst x))) (time_range_to_cumsum start m)
         = map (\<lambda>k. dt_key (start k)) (map fst (time_range_to_cumsum start m))"
    by simp
  also have "\<dots> = map (\<lambda>x. dt_key (start (fst x))) ?s"
    unfolding keys by simp
  finally show "sorted (map (\<lambda>x. dt_key (start (fst x))) (time_range_to_cumsum start m))"
    by (simp only: sorted_sort_key)
  from assms have "\<forall>(k, x) \<in> set ?s. 0 \<le> x" by simp
  then show "sorted (map snd (time_range_to_cumsum start m))"
    unfolding time_range_to_cumsum_def by (intro cumsum_loop_sorted) simp_all
  show "m \<noteq> [] \<Longrightarrow> snd (last (time_range_to_cumsum start m)) = sum_list (map snd m)"
  proof -
    assume "m \<noteq> []"
    then have "?s \<noteq> []" by (metis length_0_conv length_sort)
    then show ?thesis
      unfolding time_range_to_cumsum_def by (simp add: cumsum_loop_last sum_list_sort_key)
  qed
  from keys have "length (map fst (time_range_to_cumsum start m)) = length (map fst ?s)" by simp
  then show "length (time_range_to_cumsum start m) = length m" by simp
qed

lemma DailyCountHistory_init_eq:
  "\<exists>best. DailyCountHistory_init es =
     Inr \<lparr>day_to_count = es,
          month_to_count = map (\<lambda>(d, c).
            (MonthTimeRange (datetime_ymd (year (start_date d)) (month (start_date d)) 1), c)) es,
          year_to_count = map (\<lambda>(d, c).
            (YearTimeRange (datetime_ymd (year (start_date d)) 1 1), c)) es,
          total = sum_list (map snd es),
          day_to_cumsum = time_range_to_cumsum start_date es,
          month_to_cumsum = time_range_to_cumsum TimeRange_start (map (\<lambda>(d, c).
            (MonthTimeRange (datetime_ymd (year (start_date d)) (month (start_date d)) 1), c)) es),
          day_of_week_to_best_count = best\<rparr>"
proof -
  from extract_best_ok obtain best where "extract_day_of_week_to_best_count es = Inr best"
    by blast
  then show ?thesis
    by (simp add: DailyCountHistory_init_def group_by_month_eq group_by_year_eq)
qed

text \<open>
  Claim C3.  For every mapping of days to non-negative counts the history is constructed,
  its total is the sum of the counts (0 for the empty mapping), and both cumulative-sum
  mappings, of the days and of the months, list their keys in ascending order of start
  date with non-decreasing values, the last of which is the total.
\<close>

theorem count_history_total_and_cumsums:
  assumes "\<forall>(d, c) \<in> set m. 0 \<le> c"
  shows "\<exists>h. DailyCountHistory_init m = Inr h
      \<and> total h = sum_list (map snd m)
      \<and> (m = [] \<longrightarrow> total h = 0)
      \<and> sorted (map (\<lambda>x. dt_key (start_date (fst x))) (day_to_cumsum h))
      \<and> sorted (map snd (day_to_cumsum h))
      \<and> (m \<noteq> [] \<longrightarrow> snd (last (day_to_cumsum h)) = total h)
      \<and> sorted (map (\<lambda>x. dt_key (TimeRange_start (fst x))) (month_to_cumsum h))
      \<and> sorted (map snd (month_to_cumsum h))
      \<and> (m \<noteq> [] \<longrightarrow> snd (last (month_to_cumsum h)) = total h)"
proof -
  let ?mm = "map (\<lambda>(d, c).
      (MonthTimeRange (datetime_ymd (year (start_date d)) (month (start_date d)) 1), c)) m"
  from DailyCountHistory_init_eq[of m] obtain h where h: "DailyCountHistory_init m = Inr h"
    "total h = sum_list (map snd m)" "day_to_cumsum h = time_range_to_cumsum start_date m"
    "month_to_cumsum h = time_range_to_cumsum TimeRange_start ?mm"
    by force
  from assms have nonneg: "\<forall>(k, x) \<in> set ?mm. 0 \<le> x" by auto
  have sums: "sum_list (map snd ?mm) = sum_list (map snd m)"
    by (simp add: case_prod_unfold comp_def)
  have mm_empty: "?mm = [] \<longleftrightarrow> m = []" by simp
  note d = time_range_to_cumsum_props[OF assms, of start_date]
  note mo = time_range_to_cumsum_props[OF nonneg, of TimeRange_start]
  show ?thesis
  proof (intro exI conjI)
    show "DailyCountHistory_init m = Inr h" by (rule h(1))
    show "total h = sum_list (map snd m)" by (rule h(2))
    show "m = [] \<longrightarrow> total h = 0" by (simp add: h(2))
    show "sorted (map (\<lambda>x. dt_key (start_date (fst x))) (day_to_cumsum h))"
      unfolding h(3) by (rule d(1))
    show "sorted (map snd (day_to_cumsum h))" unfolding h(3) by (rule d(2))
    show "m \<noteq> [] \<longrightarrow> snd (last (day_to_cumsum h)) = total h"
      unfolding h(2,3) using d(3) by blast
    show "sorted (map (\<lambda>x. dt_key (TimeRange_start (fst x))) (month_to_cumsum h))"
      unfolding h(4) by (rule mo(1))
    show "sorted (map snd (month_to_cumsum h))" unfolding h(4) by (rule mo(2))
    show "m \<noteq> [] \<longrightarrow> snd (last (month_to_cumsum h)) = total h"
      unfolding h(2,4) using mo(3) sums mm_empty by metis
  qed
qed

theorem count_history_total_and_cumsums_witness:
  "\<exists>h. DailyCountHistory_init scenario_counts = Inr h \<and> total h = 13
      \<and> snd (last (day_to_cumsum h)) = 13 \<and> snd (last (month_to_cumsum h)) = 13"
proof -
  have nonneg: "\<forall>(d, c) \<in> set scenario_counts. 0 \<le> c"
    by (simp add: scenario_counts_def)
  have "scenario_counts \<noteq> []" "sum_list (map snd scenario_counts) = 13"
    by (simp_all add: scenario_counts_def)
  with count_history_total_and_cumsums [OF nonneg] show ?thesis
    by auto
qed

section \<open>Properties of fact extraction\<close>

lemma day_to_count_init: "DailyCountHistory_init es = Inr h \<Longrightarrow> day_to_count h = es"
  using DailyCountHistory_init_eq[of es] by auto

lemma day_to_count_projr_init: "day_to_count (projr (DailyCountHistory_init es)) = es"
  using DailyCountHistory_init_eq[of es] by auto

lemma getitem_cases:
  "day_to_count_getitem h t = Inl KeyError \<or> (\<exists>c. day_to_count_getitem h t = Inr c)"
  by (simp add: day_to_count_getitem_def split: option.splits)

lemma getitem_key: "is_key h t \<Longrightarrow> \<exists>c. day_to_count_getitem h t = Inr c"
  by (auto simp: day_to_count_getitem_def is_key_def split: option.splits)

lemmas extraction_defs = extract_relevant_facts_def bind_err_def extract_total_def
  extract_rank_and_ties_of_day_of_week_def get_rank_of_day_in_year_def
  get_rank_of_day_in_month_def get_rank_of_day_def human_rank_in_list_eq Let_def

lemma days_before_september: "days_before_month y 9 = (if is_leap y then 244 else 243)"
  by (simp add: days_before_month_def days_in_month_def upt_conv_Cons)

lemmas scenario_defs = scenario_counts_def scenario_target_def scenario_history_def
  two_septembers_def two_septembers_history_def two_septembers_target_def
  september_day_def datetime_ymd_def day_to_count_projr_init day_to_count_getitem_def
  DayTimeRange_day_of_week_def weekday_def toordinal_def days_before_year_def
  days_before_september is_leap_def DayOfWeek_of_def DayTimeRange_year_def
  DayTimeRange_month_def share_year_def share_month_def extract_month_total_def
  dt_le_def dt_lt_def dt_key_def

text \<open>
  Claim C4.  \<open>extract_relevant_facts\<close> raises the validation error exactly when
  \<open>among_range\<close> does not contain the start or does not contain the end of the target
  day.  When it contains both and the target is a key of the daily history, the result
  is the list of six facts: historical total, day-of-week rank within the year,
  day-of-week rank across history, rank of the day in its year, rank of the day in its
  month and month total, each with priority 0.
\<close>

theorem extract_relevant_facts_validation_and_six_facts:
  "is_ValueError (extract_relevant_facts h among t)
     = (\<not> contains among (start_date (obj t)) \<or> \<not> contains among (end_date (obj t)))
   \<and> (contains among (start_date (obj t)) \<and> contains among (end_date (obj t)) \<and> is_key h t
        \<longrightarrow> (\<exists>count r1 n1 r2 n2 r3 n3 r4 n4 facts.
              extract_relevant_facts h among t = Inr facts
              \<and> facts =
                 [HistoricalTotalRelevantFact (obj t) 0 count,
                  YearDayOfWeekRankRelevantFact (obj t) 0 (DayTimeRange_day_of_week (obj t)) r1 n1,
                  HistoricalDayOfWeekRankRelevantFact (obj t) 0
                    (DayTimeRange_day_of_week (obj t)) r2 n2,
                  DayOfYearRankOfTotalRelevantFact (obj t) 0 count r3 n3,
                  DayOfMonthRankOfTotalRelevantFact (obj t) 0 count r4 n4,
                  MonthTotalRelevantFact (obj t) 0 (extract_month_total h t)]
              \<and> length facts = 6
              \<and> list_all (\<lambda>f. priority f = 0) facts))"
proof (intro conjI impI)
  show "is_ValueError (extract_relevant_facts h among t)
     = (\<not> contains among (start_date (obj t)) \<or> \<not> contains among (end_date (obj t)))"
    using getitem_cases[of h t] by (auto simp: extraction_defs)
next
  assume a: "contains among (start_date (obj t)) \<and> contains among (end_date (obj t)) \<and> is_key h t"
  then obtain c where "day_to_count_getitem h t = Inr c"
    using getitem_key by blast
  with a show "\<exists>count r1 n1 r2 n2 r3 n3 r4 n4 facts.
              extract_relevant_facts h among t = Inr facts
              \<and> facts =
                 [HistoricalTotalRelevantFact (obj t) 0 count,
                  YearDayOfWeekRankRelevantFact (obj t) 0 (DayTimeRange_day_of_week (obj t)) r1 n1,
                  HistoricalDayOfWeekRankRelevantFact (obj t) 0
                    (DayTimeRange_day_of_week (obj t)) r2 n2,
                  DayOfYearRankOfTotalRelevantFact (obj t) 0 count r3 n3,
                  DayOfMonthRankOfTotalRelevantFact (obj t) 0 count r4 n4,
                  MonthTotalRelevantFact (obj t) 0 (extract_month_total h t)]
              \<and> length facts = 6
              \<and> list_all (\<lambda>f. priority f = 0) facts"
    by (simp add: extraction_defs)
qed

theorem extract_relevant_facts_validation_and_six_facts_witness:
  "contains (MonthTimeRange (datetime_ymd 2019 9 1)) (start_date (obj scenario_target))
   \<and> contains (MonthTimeRange (datetime_ymd 2019 9 1)) (end_date (obj scenario_target))
   \<and> is_key scenario_history scenario_target
   \<and> extract_relevant_facts scenario_history (MonthTimeRange (datetime_ymd 2019 9 1))
         scenario_target
       = Inr [HistoricalTotalRelevantFact (september_day 2019 3) 0 5,
              YearDayOfWeekRankRelevantFact (september_day 2019 3) 0 TUESDAY 1 0,
              HistoricalDayOfWeekRankRelevantFact (september_day 2019 3) 0 TUESDAY 1 0,
              DayOfYearRankOfTotalRelevantFact (september_day 2019 3) 0 5 1 1,
              DayOfMonthRankOfTotalRelevantFact (september_day 2019 3) 0 5 1 1,
              MonthTotalRelevantFact (september_day 2019 3) 0 13]
   \<and> is_ValueError (extract_relevant_facts scenario_history
         (DayRange (september_day 2019 3)) scenario_target)"
  using extract_relevant_facts_validation_and_six_facts
      [of scenario_history "MonthTimeRange (datetime_ymd 2019 9 1)" scenario_target]
    extract_relevant_facts_validation_and_six_facts
      [of scenario_history "DayRange (september_day 2019 3)" scenario_target]
  by (simp add: extraction_defs scenario_defs is_key_def)

text \<open>
  Claim C5.  \<open>extract_month_total\<close> and \<open>share_month\<close> compare the month number only.
  In the history of 2019-09-02 (count 5) and 2020-09-02 (count 7) with the first day as
  the target, the month total is 12 and the rank in the month is computed in the
  population \<open>[5, 7]\<close>, where the claim says 5 and \<open>[5]\<close>: the days of September 2019,
  which \<open>MonthTimeRange.contains\<close> selects by year and month, sum to 5.
\<close>

theorem month_total_mixes_years:
  "extract_month_total two_septembers_history two_septembers_target = 12
   \<and> get_rank_of_day_in_month two_septembers_history two_septembers_target = Inr (2, 0)
   \<and> sum_list (map snd (filter (\<lambda>(d, c).
          contains (MonthTimeRange (datetime_ymd 2019 9 1)) (start_date d))
        (day_to_count two_septembers_history))) = 5"
  by (simp add: extraction_defs scenario_defs)

section \<open>Properties of the ingestion\<close>

lemmas parse_defs = parse_mdy_def int_of_float_string_def digit_value_def valid_datetime_def
  datetime_ymd_def days_in_month_def is_leap_def

lemma init_not_isl: "\<not> isl (DailyCountHistory_init es)"
  using DailyCountHistory_init_eq[of es] by auto

lemma traverse_length: "traverse f xs = Inr ys \<Longrightarrow> length ys = length xs"
  by (induction xs arbitrary: ys) (auto split: sum.splits)

lemma format_answer_accepted:
  assumes "EcoCounterDownloader_format_answer parse_mdy' to_count answer = Inr h"
  shows "answer \<noteq> []
    \<and> (\<exists>es. traverse (EcoCounterDownloader_format_pair parse_mdy' to_count)
              ([''09/01/2019'', ''0''] # butlast answer) = Inr es
            \<and> day_to_count h = es)"
proof -
  have ne: "answer \<noteq> []"
    using assms
    by (auto simp: EcoCounterDownloader_format_answer_def EcoCounterDownloader_check_answer_def
        py_getitem_def)
  then have b: "butlast (EcoCounterDownloader_pad_answer answer)
      = [''09/01/2019'', ''0''] # butlast answer"
    by (simp add: EcoCounterDownloader_pad_answer_def)
  from assms obtain es where
    "traverse (EcoCounterDownloader_format_pair parse_mdy' to_count)
       (butlast (EcoCounterDownloader_pad_answer answer)) = Inr es"
    "DailyCountHistory_init es = Inr h"
    by (auto simp: EcoCounterDownloader_format_answer_def split: sum.splits if_splits prod.splits)
  with ne b show ?thesis
    by (auto dest: day_to_count_init)
qed

lemma check_answer_malformed:
  assumes "answer \<noteq> []" "hd answer \<noteq> []" "\<exists>p \<in> set (butlast answer). length p \<noteq> 2"
  shows "\<exists>m. EcoCounterDownloader_check_answer answer = Inr (False, m)"
proof -
  from assms(1,2) have g: "py_getitem answer 0 = Inr (hd answer)"
    "py_getitem (hd answer) 0 = Inr (hd (hd answer))"
    by (simp_all add: py_getitem_def hd_conv_nth)
  from assms(3) have "set (map length (butlast answer)) \<noteq> {2}" by auto
  with g show ?thesis
    by (simp add: EcoCounterDownloader_check_answer_def)
qed

text \<open>
  An element other than the last whose arity is not 2 makes ingestion fail with the
  validation error, whenever the first element of the answer is not empty.
\<close>

lemma malformed_pair_rejected:
  assumes "answer \<noteq> []" "hd answer \<noteq> []" "\<exists>p \<in> set (butlast answer). length p \<noteq> 2"
  shows "is_ValueError (EcoCounterDownloader_format_answer parse_mdy' to_count answer)"
  using check_answer_malformed[OF assms]
  by (auto simp: EcoCounterDownloader_format_answer_def)

text \<open>
  The start-date test of \<^verbatim>\<open>_check_answer\<close> rejects every answer that starts at
  \<^verbatim>\<open>09/02/2019\<close>, the first day of data its message names, so no accepted answer
  starts at that day.
\<close>

lemma expected_start_date_rejected:
  "is_ValueError (EcoCounterDownloader_format_answer parse_mdy' to_count
     ((''09/02/2019'' # p) # rest))"
  by (simp add: EcoCounterDownloader_format_answer_def EcoCounterDownloader_check_answer_def
      py_getitem_def)

lemma accepted_answer_misses_expected_start:
  assumes "EcoCounterDownloader_format_answer parse_mdy' to_count answer = Inr h"
  shows "hd (hd answer) \<noteq> ''09/02/2019''"
proof
  assume e: "hd (hd answer) = ''09/02/2019''"
  from assms have "answer \<noteq> []" "hd answer \<noteq> []"
    by (auto simp: EcoCounterDownloader_format_answer_def EcoCounterDownloader_check_answer_def
        py_getitem_def hd_conv_nth split: if_splits)
  with e obtain p rest where "answer = (''09/02/2019'' # p) # rest"
    by (metis list.collapse)
  with expected_start_date_rejected[of parse_mdy' to_count p rest] assms show False
    by simp
qed

text \<open>
  Claim C8.  The answer of three pairs that starts at \<^verbatim>\<open>09/02/2019\<close>, the expected first
  day of data, is rejected by the start-date test with the validation error whose message
  names that very day as the expected one; the claim says that it passes the start-date
  validation and is accepted for history construction.
\<close>

theorem expected_start_answer_rejected:
  "hd (hd expected_start_answer) = ''09/02/2019''
   \<and> list_all (\<lambda>p. length p = 2) expected_start_answer
   \<and> EcoCounterDownloader_check_answer expected_start_answer
       = Inr (False, ''Expected first day of data: 09/02/2019.'')
   \<and> is_ValueError (EcoCounterDownloader_format_answer parse_mdy int_of_float_string
        expected_start_answer)"
  by (simp add: expected_start_answer_def EcoCounterDownloader_format_answer_def
      EcoCounterDownloader_check_answer_def py_getitem_def)

text \<open>
  Claim C10.  For every answer that ingestion accepts, the daily history consists of the
  padding item, Day(2019-09-01) with count 0, followed by the parsed elements of the
  answer without its last one: it has as many items as the answer has elements, and the
  last element of the answer is not parsed.
\<close>

theorem history_is_padding_and_all_but_last:
  assumes "EcoCounterDownloader_format_answer parse_mdy' to_count answer = Inr h"
    and "parse_mdy' ''09/01/2019'' = Inr (datetime_ymd 2019 9 1)"
    and "to_count ''0'' = Inr 0"
  shows "\<exists>parsed. traverse (EcoCounterDownloader_format_pair parse_mdy' to_count) (butlast answer)
             = Inr parsed
           \<and> day_to_count h = (september_day 2019 1, 0) # parsed
           \<and> length (day_to_count h) = length answer"
proof -
  from format_answer_accepted[OF assms(1)] obtain es where ne: "answer \<noteq> []"
    and es: "traverse (EcoCounterDownloader_format_pair parse_mdy' to_count)
              ([''09/01/2019'', ''0''] # butlast answer) = Inr es"
    and h: "day_to_count h = es" by blast
  have pad: "EcoCounterDownloader_format_pair parse_mdy' to_count [''09/01/2019'', ''0'']
      = Inr (september_day 2019 1, 0)"
    by (simp add: EcoCounterDownloader_format_pair_def assms(2,3) DayTimeRange_init_def
        DayTimeRange_check_def add_one_day_def datetime_ymd_def days_in_month_def
        september_day_def)
  from es pad obtain parsed where p:
    "traverse (EcoCounterDownloader_format_pair parse_mdy' to_count) (butlast answer) = Inr parsed"
    "es = (september_day 2019 1, 0) # parsed"
    by (auto split: sum.splits)
  have "length parsed = length (butlast answer)"
    using p(1) traverse_length by blast
  with ne p h show ?thesis by simp
qed


theorem history_is_padding_and_all_but_last_witness:
  "parse_mdy ''09/01/2019'' = Inr (datetime_ymd 2019 9 1)
   \<and> int_of_float_string ''0'' = Inr 0
   \<and> \<not> isl (EcoCounterDownloader_format_answer parse_mdy int_of_float_string two_pair_answer)
   \<and> day_to_count
        (projr (EcoCounterDownloader_format_answer parse_mdy int_of_float_string two_pair_answer))
       = [(september_day 2019 1, 0), (september_day 2019 3, 5)]"
proof -
  have p: "parse_mdy ''09/01/2019'' = Inr (datetime_ymd 2019 9 1)"
    by (simp add: parse_defs)
  have c: "int_of_float_string ''0'' = Inr 0"
    by (simp add: parse_defs)
  have t: "traverse (EcoCounterDownloader_format_pair parse_mdy int_of_float_string)
        (butlast two_pair_answer) = Inr [(september_day 2019 3, 5)]"
    by (simp add: two_pair_answer_def EcoCounterDownloader_format_pair_def parse_defs
        DayTimeRange_init_def DayTimeRange_check_def add_one_day_def september_day_def)
  have ok: "\<not> isl (EcoCounterDownloader_format_answer parse_mdy int_of_float_string
      two_pair_answer)"
    using t init_not_isl
    by (simp add: EcoCounterDownloader_format_answer_def EcoCounterDownloader_check_answer_def
        EcoCounterDownloader_pad_answer_def py_getitem_def two_pair_answer_def
        EcoCounterDownloader_format_pair_def parse_defs DayTimeRange_init_def
        DayTimeRange_check_def add_one_day_def)
  then have h: "EcoCounterDownloader_format_answer parse_mdy int_of_float_string two_pair_answer
      = Inr (projr (EcoCounterDownloader_format_answer parse_mdy int_of_float_string
          two_pair_answer))"
    by simp
  from history_is_padding_and_all_but_last [OF h p c] t p c ok show ?thesis
    by auto
qed

section \<open>Properties of the dictionary\<close>

lemma from_json_never_returns: "isl (Dictionary_from_json j)"
  by (cases j) (simp_all add: Dictionary_from_json_def Dictionary_check_json_def)

lemma from_json_rejects_dict:
  "Dictionary_from_json (JObject kvs) = Inl (ValueError ''json_dictionary must be of type dict'')"
  by (simp add: Dictionary_from_json_def Dictionary_check_json_def)

text \<open>
  Claim C9.  \<open>from_json\<close> raises the validation error on a well-formed dictionary, with
  the message that the argument must be a dict: \<open>check_json\<close> rejects exactly the dicts.
\<close>

theorem from_json_rejects_well_formed:
  "well_formed_json_dictionary one_entry_json
   \<and> Dictionary_from_json one_entry_json
       = Inl (ValueError ''json_dictionary must be of type dict'')"
  by (simp add: one_entry_json_def from_json_rejects_dict DictionaryKey_values_def)

end
